theory Spec2Isabelle
  imports Complex_Main "HOL-Library.AList" "HOL-Library.Sublist"
begin

section \<open>Errors and operands\<close>

text \<open>
  The exceptions the modelled code raises. \<open>ShapeMismatchError\<close> is the name the
  specification gives to the failure of the shape-compatibility check.
\<close>

datatype py_error =
    NotImplementedError
  | KeyError
  | ValueError
  | IndexError
  | AttributeError
  | SyntaxError
  | ShapeMismatchError

text \<open>
  What the backend observes of an argument object: whether it has a \<open>shape\<close> attribute
  (and its value, a tuple of dimensions), whether it has a \<open>short_name\<close>, whether
  \<open>'bool'\<close> occurs in \<open>str(type(arg))\<close>, and \<open>str(arg)\<close>.
\<close>

record pyobj =
  shape :: "nat list option"
  short_name :: "string option"
  bool_type :: bool
  repr :: string

text \<open>An argument is an object or a plain Python string (which has no \<open>shape\<close>).\<close>

datatype arg = Obj pyobj | Str string

fun shape_attr :: "arg \<Rightarrow> nat list option" where
  "shape_attr (Obj x) = shape x"
| "shape_attr (Str s) = None"

section \<open>\<open>FortranBackend._compare_shapes\<close>\<close>

text \<open>
  \<^verbatim>\<open>
  if hasattr(op1, 'shape') and hasattr(op2, 'shape'):
      if op1.shape == op2.shape: return True
      elif len(op1.shape) > 1 and len(op2.shape) > 1: return True
      elif len(op1.shape) == 0 and len(op2.shape) == 0: return True
      else: return False
  elif hasattr(op1, 'shape'):
      if sum(op1.shape) > 0: return False
      else: return True
  else:
      return True
  \<close>
\<close>

definition compare_shapes :: "arg \<Rightarrow> arg \<Rightarrow> bool" where
  "compare_shapes op1 op2 =
     (case (shape_attr op1, shape_attr op2) of
        (Some s1, Some s2) \<Rightarrow>
          (if s1 = s2 then True
           else if length s1 > 1 \<and> length s2 > 1 then True
           else if length s1 = 0 \<and> length s2 = 0 then True
           else False)
      | (Some s1, None) \<Rightarrow> (if sum_list s1 > 0 then False else True)
      | (None, _) \<Rightarrow> True)"

text \<open>
  Modelled from the spec: the graph builder that calls the check lives in the base
  backend, which is not part of the sources at hand. The specification says that an
  incompatible pair is surfaced as a \<open>ShapeMismatchError\<close> before the binary operation
  node is constructed.
\<close>

definition check_operand_shapes :: "arg \<Rightarrow> arg \<Rightarrow> py_error + unit" where
  "check_operand_shapes op1 op2 =
     (if compare_shapes op1 op2 then Inr () else Inl ShapeMismatchError)"

section \<open>The operator table of \<open>FortranBackend.__init__\<close>\<close>

text \<open>
  An entry of the table is the dictionary \<^verbatim>\<open>{'name': ..., 'call': ...}\<close>; the table is a
  dictionary from operator symbols to entries, kept as an association list in the order
  of the source literal.
\<close>

record op_entry =
  name :: string
  call :: string

type_synonym op_table = "(string \<times> op_entry) list"

definition ops_f :: op_table where
  "ops_f =
     [(''+'', \<lparr>name = ''fortran_add'', call = ''+''\<rparr>),
      (''-'', \<lparr>name = ''fortran_subtract'', call = ''-''\<rparr>),
      (''*'', \<lparr>name = ''fortran_multiply'', call = ''*''\<rparr>),
      (''/'', \<lparr>name = ''fortran_divide'', call = ''/''\<rparr>),
      (''%'', \<lparr>name = ''fortran_modulo'', call = ''MODULO''\<rparr>),
      (''^'', \<lparr>name = ''fortran_power'', call = ''**''\<rparr>),
      (''**'', \<lparr>name = ''fortran_power_float'', call = ''**''\<rparr>),
      (''@'', \<lparr>name = ''fortrandot'', call = []\<rparr>),
      (''.T'', \<lparr>name = ''fortrantranspose'', call = []\<rparr>),
      (''.I'', \<lparr>name = ''fortraninvert'', call = []\<rparr>),
      (''>'', \<lparr>name = ''fortrangreater'', call = ''>''\<rparr>),
      (''<'', \<lparr>name = ''fortranless'', call = ''<''\<rparr>),
      (''=='', \<lparr>name = ''fortranequal'', call = ''==''\<rparr>),
      (''!='', \<lparr>name = ''fortran_not_equal'', call = ''!=''\<rparr>),
      (''>='', \<lparr>name = ''fortran_greater_equal'', call = ''>=''\<rparr>),
      (''<='', \<lparr>name = ''fortran_less_equal'', call = ''<=''\<rparr>),
      (''='', \<lparr>name = ''assign'', call = ''=''\<rparr>),
      (''+='', \<lparr>name = ''assign_add'', call = []\<rparr>),
      (''-='', \<lparr>name = ''assign_subtract'', call = []\<rparr>),
      (''*='', \<lparr>name = ''assign_multiply'', call = []\<rparr>),
      (''/='', \<lparr>name = ''assign_divide'', call = []\<rparr>),
      (''neg'', \<lparr>name = ''negative'', call = ''-''\<rparr>),
      (''sin'', \<lparr>name = ''fortran_sin'', call = ''SIN''\<rparr>),
      (''cos'', \<lparr>name = ''fortran_cos'', call = ''COS''\<rparr>),
      (''tan'', \<lparr>name = ''fortran_tan'', call = ''TAN''\<rparr>),
      (''atan'', \<lparr>name = ''fortran_atan'', call = ''ATAN''\<rparr>),
      (''abs'', \<lparr>name = ''fortran_abs'', call = ''ABS''\<rparr>),
      (''sqrt'', \<lparr>name = ''fortran_sqrt'', call = ''SQRT''\<rparr>),
      (''sq'', \<lparr>name = ''fortran_square'', call = []\<rparr>),
      (''exp'', \<lparr>name = ''fortran_exp'', call = ''EXP''\<rparr>),
      (''max'', \<lparr>name = ''fortran_max'', call = ''MAX''\<rparr>),
      (''min'', \<lparr>name = ''fortran_min'', call = ''MIN''\<rparr>),
      (''argmax'', \<lparr>name = ''fortran_transpose'', call = ''ARGMAX''\<rparr>),
      (''argmin'', \<lparr>name = ''fortran_argmin'', call = ''ARGMIN''\<rparr>),
      (''round'', \<lparr>name = ''fortran_round'', call = []\<rparr>),
      (''sum'', \<lparr>name = ''fortran_sum'', call = []\<rparr>),
      (''mean'', \<lparr>name = ''fortran_mean'', call = []\<rparr>),
      (''concat'', \<lparr>name = ''fortran_concatenate'', call = []\<rparr>),
      (''reshape'', \<lparr>name = ''fortran_reshape'', call = []\<rparr>),
      (''append'', \<lparr>name = ''fortran_append'', call = []\<rparr>),
      (''shape'', \<lparr>name = ''fortran_shape'', call = []\<rparr>),
      (''dtype'', \<lparr>name = ''fortran_dtype'', call = []\<rparr>),
      (''squeeze'', \<lparr>name = ''fortran_squeeze'', call = []\<rparr>),
      (''expand'', \<lparr>name = ''fortran_expand'', call = []\<rparr>),
      (''roll'', \<lparr>name = ''fortran_roll'', call = []\<rparr>),
      (''cast'', \<lparr>name = ''fortran_cast'', call = []\<rparr>),
      (''randn'', \<lparr>name = ''fortran_randn'', call = []\<rparr>),
      (''ones'', \<lparr>name = ''fortran_ones'', call = []\<rparr>),
      (''zeros'', \<lparr>name = ''fortran_zeros'', call = []\<rparr>),
      (''range'', \<lparr>name = ''fortran_arange'', call = []\<rparr>),
      (''softmax'', \<lparr>name = ''pyrates_softmax'', call = []\<rparr>),
      (''sigmoid'', \<lparr>name = ''pyrates_sigmoid'', call = []\<rparr>),
      (''tanh'', \<lparr>name = ''fortran_tanh'', call = ''TANH''\<rparr>),
      (''index'', \<lparr>name = ''pyrates_index'', call = ''pyrates_index''\<rparr>),
      (''mask'', \<lparr>name = ''pyrates_mask'', call = []\<rparr>),
      (''group'', \<lparr>name = ''pyrates_group'', call = []\<rparr>),
      (''asarray'', \<lparr>name = ''fortran_asarray'', call = []\<rparr>),
      (''no_op'', \<lparr>name = ''pyrates_identity'', call = []\<rparr>),
      (''interpolate'', \<lparr>name = ''pyrates_interpolate'', call = []\<rparr>),
      (''interpolate_1d'', \<lparr>name = ''pyrates_interpolate_1d'', call = []\<rparr>),
      (''interpolate_nd'', \<lparr>name = ''pyrates_interpolate_nd'', call = []\<rparr>)]"

text \<open>
  \<^verbatim>\<open>if ops: ops_f.update(ops)\<close>: a table passed by the caller overrides the entries
  entry by entry; \<open>None\<close> and the empty dictionary leave the literal as it is.
\<close>

definition dict_update :: "('k \<times> 'v) list \<Rightarrow> ('k \<times> 'v) list \<Rightarrow> ('k \<times> 'v) list" where
  "dict_update d other = fold (\<lambda>(k, v). AList.update k v) other d"

definition init_ops :: "op_table option \<Rightarrow> op_table" where
  "init_ops ops =
     (case ops of
        None \<Rightarrow> ops_f
      | Some user_ops \<Rightarrow> (if user_ops = [] then ops_f else dict_update ops_f user_ops))"

text \<open>The arithmetic and comparison symbols of the table, in the order of the literal.\<close>

definition arithmetic_ops :: "string list" where
  "arithmetic_ops = [''+'', ''-'', ''*'', ''/'', ''%'', ''^'', ''**'']"

definition comparison_ops :: "string list" where
  "comparison_ops = [''>'', ''<'', ''=='', ''!='', ''>='', ''<='']"

text \<open>All native spellings recorded for a symbol, one per table entry with that key.\<close>

definition native_spellings :: "op_table \<Rightarrow> string \<Rightarrow> string list" where
  "native_spellings table symbol = map (call \<circ> snd) (filter (\<lambda>e. fst e = symbol) table)"

section \<open>Strings\<close>

text \<open>
  \<open>str_find sub s\<close> is the position of the first occurrence of \<open>sub\<close> in \<open>s\<close>
  (Python's \<^verbatim>\<open>s.index(sub)\<close>, with \<open>None\<close> where Python raises \<open>ValueError\<close>);
  \<^verbatim>\<open>sub in s\<close> is \<open>str_find sub s \<noteq> None\<close>.
\<close>

fun str_find :: "string \<Rightarrow> string \<Rightarrow> nat option" where
  "str_find sub [] = (if sub = [] then Some 0 else None)"
| "str_find sub (c # cs) =
     (if prefix sub (c # cs) then Some 0 else map_option Suc (str_find sub cs))"

definition str_contains :: "string \<Rightarrow> string \<Rightarrow> bool" where
  "str_contains sub s = (str_find sub s \<noteq> None)"

text \<open>\<^verbatim>\<open>sep.join(parts)\<close>.\<close>

fun str_join :: "string \<Rightarrow> string list \<Rightarrow> string" where
  "str_join sep [] = []"
| "str_join sep [p] = p"
| "str_join sep (p # q # ps) = p @ sep @ str_join sep (q # ps)"

text \<open>The decimal numeral of a natural number, as an f-string prints it.\<close>

fun str_of_nat :: "nat \<Rightarrow> string" where
  "str_of_nat n =
     (if n < 10 then [''0123456789'' ! n]
      else str_of_nat (n div 10) @ [''0123456789'' ! (n mod 10)])"

section \<open>\<open>FortranBackend._create_op\<close>\<close>

fun short_name_attr :: "arg \<Rightarrow> string option" where
  "short_name_attr (Obj x) = short_name x"
| "short_name_attr (Str s) = None"

fun is_bool_type :: "arg \<Rightarrow> bool" where
  "is_bool_type (Obj x) = bool_type x"
| "is_bool_type (Str s) = False"

fun str_of :: "arg \<Rightarrow> string" where
  "str_of (Obj x) = repr x"
| "str_of (Str s) = s"

text \<open>
  The backend as \<open>_create_op\<close> reads it: the operator table, the keys of the \<open>dtypes\<close>
  dictionary, the index brackets, and the rest of the object (the variable table that
  \<open>add_var\<close> extends), which stays abstract.
\<close>

record 'v backend =
  ops :: op_table
  dtypes :: "string list"
  idx_l :: string
  idx_r :: string
  vars :: 'v

text \<open>
  The operation classes are defined in the base backend; a node is recorded as the
  class that is instantiated together with the arguments of the constructor call:
  call, operator name, node name, positional arguments, and for the assign and index
  classes the two index brackets.
\<close>

datatype op_node =
    FortranAssignOp string string string "arg list" string string
  | FortranIndexOp string string string "arg list" string string
  | FortranOp string string string "arg list"

definition assign_ops :: "string list" where
  "assign_ops = [''='', ''+='', ''-='', ''*='', ''/='']"

text \<open>
  \<^verbatim>\<open>",".join([f"{idx.short_name}[:,{i}]" for i in range(idx.shape[1])])\<close>:
  \<open>idx.shape[1]\<close> is read first; \<open>idx.short_name\<close> is read only when the range is not
  empty.
\<close>

definition idx_string :: "arg \<Rightarrow> py_error + string" where
  "idx_string idx =
     (case shape_attr idx of
        None \<Rightarrow> Inl AttributeError
      | Some sh \<Rightarrow>
          if length sh \<le> 1 then Inl IndexError
          else if sh ! 1 = 0 then Inr []
          else (case short_name_attr idx of
                  None \<Rightarrow> Inl AttributeError
                | Some sn \<Rightarrow>
                    Inr (str_join '','' (map (\<lambda>i. sn @ ''[:,'' @ str_of_nat i @ '']'') [0..<sh ! 1]))))"

text \<open>
  The body of the branch for an index argument of rank above one. The two methods of
  the base backend it calls, \<open>add_var\<close> (with \<^verbatim>\<open>vtype='state_var', name='idx'\<close>) and
  \<open>_process_update_args_old\<close>, are parameters; both may change the backend.
\<close>

definition update_index_args ::
  "('v backend \<Rightarrow> arg \<Rightarrow> arg \<times> 'v backend) \<Rightarrow>
   ('v backend \<Rightarrow> arg \<Rightarrow> arg \<Rightarrow> arg \<Rightarrow> (arg \<times> arg \<times> arg) \<times> 'v backend) \<Rightarrow>
   'v backend \<Rightarrow> arg list \<Rightarrow> (py_error + arg list) \<times> 'v backend" where
  "update_index_args add_var process_update_args_old b args =
     (let (idx0, b1) = (case short_name_attr (args ! 2) of
                          None \<Rightarrow> add_var b (args ! 2)
                        | Some _ \<Rightarrow> (args ! 2, b));
          ((var, upd, idx), b2) = process_update_args_old b1 (args ! 0) (args ! 1) idx0
      in case idx_string idx of
           Inl e \<Rightarrow> (Inl e, b2)
         | Inr idx_str \<Rightarrow> (Inr [var, upd, Str idx_str, idx], b2))"

text \<open>
  \<^verbatim>\<open>
  for dtype in self.dtypes:
      if dtype in str(args[1]):
          args[1] = f"np.{dtype}"
          break
  \<close>
\<close>

fun cast_args :: "string list \<Rightarrow> arg list \<Rightarrow> py_error + arg list" where
  "cast_args [] args = Inr args"
| "cast_args (dtype # rest) args =
     (if length args < 2 then Inl IndexError
      else if str_contains dtype (str_of (args ! 1)) then Inr (args[1 := Str (''np.'' @ dtype)])
      else cast_args rest args)"

text \<open>
  \<^verbatim>\<open>
  def _create_op(self, op, name, *args):
      if not self.ops[op]['call']:
          raise NotImplementedError(...)
      if op in ["=", "+=", "-=", "*=", "/="]:
          if len(args) > 2 and hasattr(args[2], 'shape') and len(args[2].shape) > 1 and \
                  'bool' not in str(type(args[2])):
              ...
          return FortranAssignOp(self.ops[op]['call'], self.ops[op]['name'], name, *args,
                                 idx_l=self.idx_l, idx_r=self.idx_r)
      elif op is "index":
          return FortranIndexOp(...)
      else:
          if op is "cast": ...
          return FortranOp(self.ops[op]['call'], self.ops[op]['name'], name, *args)
  \<close>
  A symbol that is not a key of the table raises \<open>KeyError\<close> at \<open>self.ops[op]\<close>. The
  identity tests \<^verbatim>\<open>op is "index"\<close> and \<^verbatim>\<open>op is "cast"\<close> are read as equality of
  strings. The result pairs the outcome with the backend after the call; after the two
  base methods have run, the table and the brackets are read from the backend they
  return.
\<close>

definition create_op ::
  "('v backend \<Rightarrow> arg \<Rightarrow> arg \<times> 'v backend) \<Rightarrow>
   ('v backend \<Rightarrow> arg \<Rightarrow> arg \<Rightarrow> arg \<Rightarrow> (arg \<times> arg \<times> arg) \<times> 'v backend) \<Rightarrow>
   'v backend \<Rightarrow> string \<Rightarrow> string \<Rightarrow> arg list \<Rightarrow> (py_error + op_node) \<times> 'v backend" where
  "create_op add_var process_update_args_old b op nm args =
     (case map_of (ops b) op of
        None \<Rightarrow> (Inl KeyError, b)
      | Some entry \<Rightarrow>
          if call entry = [] then (Inl NotImplementedError, b)
          else if op \<in> set assign_ops then
            (if length args > 2
                \<and> (case shape_attr (args ! 2) of None \<Rightarrow> False | Some sh \<Rightarrow> length sh > 1)
                \<and> \<not> is_bool_type (args ! 2)
             then (case update_index_args add_var process_update_args_old b args of
                     (Inl e, b') \<Rightarrow> (Inl e, b')
                   | (Inr args', b') \<Rightarrow>
                       (case map_of (ops b') op of
                          None \<Rightarrow> (Inl KeyError, b')
                        | Some entry' \<Rightarrow>
                            (Inr (FortranAssignOp (call entry') (name entry') nm args'
                                    (idx_l b') (idx_r b')), b')))
             else (Inr (FortranAssignOp (call entry) (name entry) nm args (idx_l b) (idx_r b)), b))
          else if op = ''index'' then
            (Inr (FortranIndexOp (call entry) (name entry) nm args (idx_l b) (idx_r b)), b)
          else if op = ''cast'' then
            (case cast_args (dtypes b) args of
               Inl e \<Rightarrow> (Inl e, b)
             | Inr args' \<Rightarrow> (Inr (FortranOp (call entry) (name entry) nm args'), b))
          else (Inr (FortranOp (call entry) (name entry) nm args), b))"

section \<open>The preparation phase of \<open>FortranBackend.compile\<close>\<close>

text \<open>
  \<^verbatim>\<open>
  new_layer_idx = 0
  for layer_idx, layer in enumerate(self.layers.copy()):
      for op in layer.copy():
          if op is None:
              layer.pop(layer.index(op))
      if len(layer) == 0:
          self.layers.pop(new_layer_idx)
      else:
          new_layer_idx += 1
  \<close>
  \<open>self.layers\<close> is a list of list objects and \<open>self.layers.copy()\<close> is a shallow copy:
  the inner loop changes the very objects \<open>self.layers\<close> holds. The layers are therefore
  references into a store of list objects, and the same object may occur more than once.
  An operation is \<open>None\<close> or an operation object.
\<close>

type_synonym ref = nat

record 'op layer_store =
  layers :: "ref list"
  objs :: "ref \<Rightarrow> 'op option list"

text \<open>\<^verbatim>\<open>xs.index(x)\<close>, with \<open>None\<close> where Python raises \<open>ValueError\<close>.\<close>

fun list_index :: "'a \<Rightarrow> 'a list \<Rightarrow> nat option" where
  "list_index x [] = None"
| "list_index x (y # ys) = (if y = x then Some 0 else map_option Suc (list_index x ys))"

text \<open>\<^verbatim>\<open>xs.pop(i)\<close> for \<open>i \<ge> 0\<close>: the list without position \<open>i\<close>.\<close>

definition list_pop :: "nat \<Rightarrow> 'a list \<Rightarrow> py_error + 'a list" where
  "list_pop i xs = (if i < length xs then Inr (take i xs @ drop (Suc i) xs) else Inl IndexError)"

text \<open>
  The inner loop runs over a copy of the layer (first argument) and removes from the
  layer itself (second argument) the first \<open>None\<close> each time it meets one.
\<close>

fun remove_None_ops :: "'op option list \<Rightarrow> 'op option list \<Rightarrow> py_error + 'op option list" where
  "remove_None_ops [] layer = Inr layer"
| "remove_None_ops (op # rest) layer =
     (if op = None then
        (case list_index None layer of
           None \<Rightarrow> Inl ValueError
         | Some i \<Rightarrow>
             (case list_pop i layer of
                Inl e \<Rightarrow> Inl e
              | Inr layer' \<Rightarrow> remove_None_ops rest layer'))
      else remove_None_ops rest layer)"

text \<open>The outer loop over the copied list of layers, with the counter \<open>new_layer_idx\<close>.\<close>

fun prepare_layers_loop ::
  "ref list \<Rightarrow> nat \<Rightarrow> 'op layer_store \<Rightarrow> py_error + 'op layer_store" where
  "prepare_layers_loop [] new_layer_idx st = Inr st"
| "prepare_layers_loop (layer # rest) new_layer_idx st =
     (case remove_None_ops (objs st layer) (objs st layer) of
        Inl e \<Rightarrow> Inl e
      | Inr ops' \<Rightarrow>
          (let st1 = st\<lparr>objs := (objs st)(layer := ops')\<rparr>
           in if length (objs st1 layer) = 0 then
                (case list_pop new_layer_idx (layers st1) of
                   Inl e \<Rightarrow> Inl e
                 | Inr layers' \<Rightarrow> prepare_layers_loop rest new_layer_idx (st1\<lparr>layers := layers'\<rparr>))
              else prepare_layers_loop rest (new_layer_idx + 1) st1))"

definition prepare_layers :: "'op layer_store \<Rightarrow> py_error + 'op layer_store" where
  "prepare_layers st = prepare_layers_loop (layers st) 0 st"

text \<open>The contents of the layers of a backend, in order.\<close>

definition layer_contents :: "'op layer_store \<Rightarrow> 'op option list list" where
  "layer_contents st = map (objs st) (layers st)"

text \<open>A layer object without its \<open>None\<close> entries.\<close>

definition stripped :: "'op layer_store \<Rightarrow> ref \<Rightarrow> 'op option list" where
  "stripped st r = filter (\<lambda>x. x \<noteq> None) (objs st r)"

section \<open>\<open>VectorizedNodeIR.__init__\<close>\<close>

text \<open>
  A Python dictionary keeps its keys in insertion order and holds each key once; it is
  an association list, assignment to a key being \<open>AList.update\<close> (in place for a key
  that is present, at the end for a new one).
\<close>

type_synonym ('k, 'v) dict = "('k \<times> 'v) list"

definition is_dict :: "('k, 'v) dict \<Rightarrow> bool" where
  "is_dict d = distinct (map fst d)"

text \<open>
  \<open>NodeIR\<close> and \<open>VectorizedNodeIR\<close> have the same slots: the template handed to the
  base class, the operator graph and \<open>values\<close> (here \<open>node_values\<close>), a
  dictionary from operator keys to dictionaries from variable keys to values (\<open>None\<close>
  by default in \<open>NodeIR\<close>). The operator graph stays abstract.
\<close>

record ('g, 'x) node_ir =
  template :: "string option"
  op_graph :: 'g
  node_values :: "(string, (string, 'x) dict) dict option"

type_synonym ('g, 'v) NodeIR = "('g, 'v) node_ir"
type_synonym ('g, 'v) VectorizedNodeIR = "('g, 'v list) node_ir"

text \<open>
  \<^verbatim>\<open>
  values = {}
  for op_key, value_dict in node_ir.values.items():
      op_values = {}
      for var_key, value in value_dict.items():
          op_values[var_key] = [value]
      values[op_key] = copy(op_values)
  self.values = values
  \<close>
  The inner loop, with the dictionary \<open>op_values\<close> built so far:
\<close>

fun wrap_values :: "(string, 'v) dict \<Rightarrow> (string, 'v list) dict \<Rightarrow> (string, 'v list) dict" where
  "wrap_values [] op_values = op_values"
| "wrap_values ((var_key, value) # items) op_values =
     wrap_values items (AList.update var_key [value] op_values)"

text \<open>The outer loop, with the dictionary \<open>values\<close> built so far.\<close>

fun vectorize_values ::
  "(string, (string, 'v) dict) dict \<Rightarrow> (string, (string, 'v list) dict) dict \<Rightarrow>
   (string, (string, 'v list) dict) dict" where
  "vectorize_values [] vals = vals"
| "vectorize_values ((op_key, value_dict) # items) vals =
     vectorize_values items (AList.update op_key (wrap_values value_dict []) vals)"

text \<open>
  The constructor reads \<open>node_ir\<close> and builds the new node; \<open>node_ir.values.items()\<close>
  raises \<open>AttributeError\<close> when \<open>values\<close> is \<open>None\<close>. The copy of the operator graph is a
  method of a class outside these sources and is a parameter. The result is the source
  node after the call together with the new node.
\<close>

definition VectorizedNodeIR_init ::
  "('g \<Rightarrow> 'g) \<Rightarrow> ('g, 'v) NodeIR \<Rightarrow> py_error + (('g, 'v) NodeIR \<times> ('g, 'v) VectorizedNodeIR)" where
  "VectorizedNodeIR_init copy_graph node =
     (case node_values node of
        None \<Rightarrow> Inl AttributeError
      | Some d \<Rightarrow>
          Inr (node,
               \<lparr>template = template node,
                op_graph = copy_graph (op_graph node),
                node_values = Some (vectorize_values d [])\<rparr>))"

section \<open>The equation layer\<close>

text \<open>
  Modelled from the spec: the equation and solver layer (the classes \<open>EquationParser\<close>
  and \<open>Solver\<close> that the tests exercise) is not among the sources. The specification
  describes an equation as a target variable, a right-hand side and a mode flag,
  \<open>assign\<close> or \<open>differential\<close>. The right-hand side is kept as the callable the
  expression is lowered to, evaluated in the current bindings of the variables. Values
  are exact real numbers: the rounding of floating-point arithmetic is not modelled.
\<close>

datatype eq_mode = Assign | Differential

type_synonym bindings = "string \<Rightarrow> real"

record equation =
  target :: string
  rhs :: "bindings \<Rightarrow> real"
  mode :: eq_mode

text \<open>
  Modelled from the spec: \<open>evaluate(rhs)\<close>, the value of the right-hand side in the
  current bindings.
\<close>

definition evaluate :: "(bindings \<Rightarrow> real) \<Rightarrow> bindings \<Rightarrow> real" where
  "evaluate r s = r s"

text \<open>
  Modelled from the spec: the update rule applied once per step,
  \<^verbatim>\<open>target := evaluate(rhs)\<close> in \<open>assign\<close> mode and
  \<^verbatim>\<open>target := target + evaluate(rhs) * dt\<close> in \<open>differential\<close> mode.
\<close>

definition update_rule :: "equation \<Rightarrow> real \<Rightarrow> bindings \<Rightarrow> bindings" where
  "update_rule eq dt s =
     (case mode eq of
        Assign \<Rightarrow> s(target eq := evaluate (rhs eq) s)
      | Differential \<Rightarrow> s(target eq := s (target eq) + evaluate (rhs eq) s * dt))"

text \<open>
  Modelled from the spec: \<open>evaluate_step(equation_set, dt)\<close> applies the update rule of
  each equation of the set in turn to the state variables.
\<close>

fun evaluate_step :: "equation list \<Rightarrow> real \<Rightarrow> bindings \<Rightarrow> bindings" where
  "evaluate_step [] dt s = s"
| "evaluate_step (eq # eqs) dt s = evaluate_step eqs dt (update_rule eq dt s)"

section \<open>Slice arguments of indexing expressions\<close>

text \<open>\<^verbatim>\<open>s.split(sep)\<close> for a separator of one character.\<close>

fun split_on :: "char \<Rightarrow> string \<Rightarrow> string list" where
  "split_on sep [] = [[]]"
| "split_on sep (c # cs) =
     (if c = sep then [] # split_on sep cs
      else (case split_on sep cs of
              [] \<Rightarrow> [[c]]
            | p # ps \<Rightarrow> (c # p) # ps))"

definition colon_count :: "string \<Rightarrow> nat" where
  "colon_count s = length (filter (\<lambda>c. c = CHR '':'') s)"

text \<open>
  Modelled from the spec: the expression parser is not among the sources, only its
  tests are. The specification says that an index argument is a single index or a
  slice \<open>start:stop\<close> or \<open>start:stop:step\<close> (one or two colons, the full slice \<open>:\<close>
  being the slice with empty bounds), and that more than two colons is a
  \<open>SyntaxError\<close>. The parts of the argument are sub-expressions, kept as text.
\<close>

datatype index_arg = Single string | Slice string string "string option"

definition parse_index_arg :: "string \<Rightarrow> py_error + index_arg" where
  "parse_index_arg s =
     (case split_on CHR '':'' s of
        [i] \<Rightarrow> Inr (Single i)
      | [start, stop] \<Rightarrow> Inr (Slice start stop None)
      | [start, stop, step] \<Rightarrow> Inr (Slice start stop (Some step))
      | _ \<Rightarrow> Inl SyntaxError)"

text \<open>
  Modelled from the spec: an indexing expression is a variable followed by the index
  arguments in brackets, separated by commas (as in \<open>A[5,0:-2]\<close> of the tests); the
  arguments are parsed from left to right and the first failure aborts the parse.
\<close>

fun parse_index_args :: "string list \<Rightarrow> py_error + index_arg list" where
  "parse_index_args [] = Inr []"
| "parse_index_args (a # as) =
     (case parse_index_arg a of
        Inl e \<Rightarrow> Inl e
      | Inr x \<Rightarrow> (case parse_index_args as of Inl e \<Rightarrow> Inl e | Inr xs \<Rightarrow> Inr (x # xs)))"

definition index_arguments :: "string \<Rightarrow> string list option" where
  "index_arguments expr =
     (let rest = dropWhile (\<lambda>c. c \<noteq> CHR ''['') expr
      in if rest \<noteq> [] \<and> last rest = CHR '']''
         then Some (split_on CHR '','' (butlast (tl rest)))
         else None)"

definition parse_index_expr :: "string \<Rightarrow> py_error + (string \<times> index_arg list)" where
  "parse_index_expr expr =
     (case index_arguments expr of
        None \<Rightarrow> Inl SyntaxError
      | Some args \<Rightarrow>
          (case parse_index_args args of
             Inl e \<Rightarrow> Inl e
           | Inr xs \<Rightarrow> Inr (takeWhile (\<lambda>c. c \<noteq> CHR ''['') expr, xs)))"

section \<open>\<open>FortranGen.add_code_line\<close>\<close>

text \<open>
  The code generator holds the list \<open>code\<close> of the strings added so far and the
  indentation level \<open>lvl\<close>.
\<close>

record codegen =
  code :: "string list"
  lvl :: nat

definition newline :: string where
  "newline = [CHR 0x0A]"

definition tab :: char where
  "tab = CHR 0x09"

text \<open>
  Modelled from the spec: \<open>add_linebreak\<close> is a method of the base class \<open>CodeGen\<close>,
  which is not among the sources; it adds the line-break entry that \<open>add_code_line\<close>
  tests for with \<^verbatim>\<open>self.code[-1] == '\n'\<close>.
\<close>

definition add_linebreak :: "codegen \<Rightarrow> codegen" where
  "add_linebreak g = g\<lparr>code := code g @ [newline]\<rparr>"

text \<open>\<^verbatim>\<open>xs[start:stop]\<close> for indices that are not negative.\<close>

definition py_slice :: "'a list \<Rightarrow> nat \<Rightarrow> nat \<Rightarrow> 'a list" where
  "py_slice xs start stop = take (stop - start) (drop start xs)"

fun list_max :: "nat list \<Rightarrow> nat" where
  "list_max [] = 0"
| "list_max (x # xs) = max x (list_max xs)"

definition split_ops :: "string list" where
  "split_ops = [''+'', ''-'', ''*'', ''/'', ''**'', ''^'', ''%'', ''<'', ''>'', ''=='', ''!='', ''<='', ''>='']"

text \<open>
  \<^verbatim>\<open>
  def _find_first_op(self, code, start, stop):
      if stop < len(code):
          code_tmp = code[start:stop]
          ops = ["+", "-", "*", "/", "**", "^", "%", "<", ">", "==", "!=", "<=", ">="]
          indices = [code_tmp.index(op) for op in ops if op in code_tmp]
          if indices and max(indices) > 0:
              return max(indices)
          return len(code_tmp) - 1 - code_tmp[::-1].index(' ')
      return stop
  \<close>
  \<open>index\<close> of a blank in a text without blanks raises \<open>ValueError\<close>.
\<close>

definition find_first_op :: "string \<Rightarrow> nat \<Rightarrow> nat \<Rightarrow> py_error + nat" where
  "find_first_op code_text start stop =
     (if stop < length code_text then
        (let code_tmp = py_slice code_text start stop;
             indices = List.map_filter (\<lambda>op. str_find op code_tmp) split_ops
         in if indices \<noteq> [] \<and> list_max indices > 0 then Inr (list_max indices)
            else (case list_index CHR '' '' (rev code_tmp) of
                    None \<Rightarrow> Inl ValueError
                  | Some i \<Rightarrow> Inr (length code_tmp - 1 - i)))
      else Inr stop)"

text \<open>How a call of \<open>add_code_line\<close> ends, next to the generator it leaves behind.\<close>

datatype outcome = Returned | Raised py_error

definition continuation :: string where
  "continuation = ''     & ''"

text \<open>
  \<^verbatim>\<open>
  while idx < n:
      self.add_linebreak()
      idx_new = self._find_first_op(code_line, start=idx, stop=idx+n)
      self.code.append("     " f"& {code_line[idx:idx+idx_new]}")
      idx += idx_new
  \<close>
  with \<open>n = 60\<close>. The loop need not end (\<open>idx_new\<close> may be \<open>0\<close>), so not returning is
  the value \<open>None\<close>.
\<close>

partial_function (option) wrap_loop :: "string \<Rightarrow> nat \<Rightarrow> codegen \<Rightarrow> (outcome \<times> codegen) option" where
  "wrap_loop code_line idx g =
     (if idx < 60 then
        (let g1 = add_linebreak g
         in case find_first_op code_line idx (idx + 60) of
              Inl e \<Rightarrow> Some (Raised e, g1)
            | Inr idx_new \<Rightarrow>
                wrap_loop code_line (idx + idx_new)
                  (g1\<lparr>code := code g1 @ [continuation @ py_slice code_line idx (idx + idx_new)]\<rparr>))
      else Some (Returned, g))"

declare wrap_loop.simps [code]

text \<open>
  \<^verbatim>\<open>code_line = "\t" * self.lvl + code_str if self.code and self.code[-1] == '\n' else code_str\<close>
\<close>

definition indented_line :: "codegen \<Rightarrow> string \<Rightarrow> string" where
  "indented_line g code_str =
     (if code g \<noteq> [] \<and> last (code g) = newline then replicate (lvl g) tab @ code_str
      else code_str)"

text \<open>
  \<^verbatim>\<open>
  n = 60
  if len(code_line) > n:
      idx = self._find_first_op(code_line, start=0, stop=n)
      self.code.append(f"{code_line[0:idx]}")
      while idx < n: ...
  else:
      self.code.append(code_line)
  \<close>
\<close>

definition add_code_line :: "codegen \<Rightarrow> string \<Rightarrow> (outcome \<times> codegen) option" where
  "add_code_line g code_str =
     (let code_line = indented_line g code_str
      in if length code_line > 60 then
           (case find_first_op code_line 0 60 of
              Inl e \<Rightarrow> Some (Raised e, g)
            | Inr idx \<Rightarrow> wrap_loop code_line idx (g\<lparr>code := code g @ [py_slice code_line 0 idx]\<rparr>))
         else Some (Returned, g\<lparr>code := code g @ [code_line]\<rparr>))"

text \<open>The entries a call has added to the generator.\<close>

definition appended :: "codegen \<Rightarrow> codegen \<Rightarrow> string list" where
  "appended g g' = drop (length (code g)) (code g')"

section \<open>Shape compatibility: results\<close>

text \<open>
  C1. When both operands carry a shape, the check answers compatible exactly when the
  shapes are identical, or both have rank greater than one (whatever the dimensions), or
  both have rank zero; in every other such case it answers incompatible, and the graph
  builder then fails with \<open>ShapeMismatchError\<close>.
\<close>

theorem compare_shapes_both_shaped:
  "shape_attr op1 = Some s1 \<Longrightarrow> shape_attr op2 = Some s2 \<Longrightarrow>
     (compare_shapes op1 op2 \<longleftrightarrow>
        s1 = s2 \<or> (length s1 > 1 \<and> length s2 > 1) \<or> (length s1 = 0 \<and> length s2 = 0))
     \<and> (check_operand_shapes op1 op2 = Inl ShapeMismatchError \<longleftrightarrow> \<not> compare_shapes op1 op2)"
  by (simp add: compare_shapes_def check_operand_shapes_def)

theorem compare_shapes_both_shaped_witness:
  "compare_shapes (Obj \<lparr>shape = Some [3, 3], short_name = None, bool_type = False, repr = ''a''\<rparr>)
                  (Obj \<lparr>shape = Some [4, 4], short_name = None, bool_type = False, repr = ''b''\<rparr>)
   \<and> \<not> compare_shapes (Obj \<lparr>shape = Some [3], short_name = None, bool_type = False, repr = ''a''\<rparr>)
                       (Obj \<lparr>shape = Some [4], short_name = None, bool_type = False, repr = ''b''\<rparr>)
   \<and> check_operand_shapes (Obj \<lparr>shape = Some [3], short_name = None, bool_type = False, repr = ''a''\<rparr>)
                       (Obj \<lparr>shape = Some [4], short_name = None, bool_type = False, repr = ''b''\<rparr>)
       = Inl ShapeMismatchError"
  using compare_shapes_both_shaped
          [of "Obj \<lparr>shape = Some [3, 3], short_name = None, bool_type = False, repr = ''a''\<rparr>" "[3, 3]"
              "Obj \<lparr>shape = Some [4, 4], short_name = None, bool_type = False, repr = ''b''\<rparr>" "[4, 4]"]
        compare_shapes_both_shaped
          [of "Obj \<lparr>shape = Some [3], short_name = None, bool_type = False, repr = ''a''\<rparr>" "[3]"
              "Obj \<lparr>shape = Some [4], short_name = None, bool_type = False, repr = ''b''\<rparr>" "[4]"]
  by simp

text \<open>
  C9. When only the first operand carries a shape, the check answers compatible exactly
  when the entries of that shape sum to zero, so a one-element array of shape \<open>(1,)\<close> is
  incompatible with a shapeless scalar; when the first operand carries no shape the
  check answers compatible whatever the second operand is.
\<close>

theorem compare_shapes_one_shaped:
  "(shape_attr op1 = Some s1 \<and> shape_attr op2 = None \<longrightarrow>
      (compare_shapes op1 op2 \<longleftrightarrow> sum_list s1 = 0))
   \<and> (shape_attr op1 = None \<longrightarrow> compare_shapes op1 op2)"
  by (simp add: compare_shapes_def del: sum_list_eq_0_iff)

theorem compare_shapes_one_shaped_witness:
  "\<not> compare_shapes (Obj \<lparr>shape = Some [1], short_name = None, bool_type = False, repr = ''a''\<rparr>) (Str ''5.'')
   \<and> compare_shapes (Obj \<lparr>shape = Some [], short_name = None, bool_type = False, repr = ''a''\<rparr>) (Str ''5.'')
   \<and> compare_shapes (Str ''5.'') (Obj \<lparr>shape = Some [3, 3], short_name = None, bool_type = False, repr = ''a''\<rparr>)"
  using compare_shapes_one_shaped
          [of "Obj \<lparr>shape = Some [1], short_name = None, bool_type = False, repr = ''a''\<rparr>" "[1]" "Str ''5.''"]
        compare_shapes_one_shaped
          [of "Obj \<lparr>shape = Some [], short_name = None, bool_type = False, repr = ''a''\<rparr>" "[]" "Str ''5.''"]
        compare_shapes_one_shaped
          [of "Str ''5.''" "[]" "Obj \<lparr>shape = Some [3, 3], short_name = None, bool_type = False, repr = ''a''\<rparr>"]
  by simp

section \<open>The operator table: results\<close>

lemma ops_f_keys_distinct: "distinct (map fst ops_f)"
  by code_simp

text \<open>
  C8. In the table of the Fortran backend the modulo symbol \<open>%\<close> has the native
  spelling \<open>MODULO\<close>, both power symbols \<open>^\<close> and \<open>**\<close> have the native spelling
  \<open>**\<close>, and every arithmetic and comparison symbol has exactly one native spelling.
\<close>

theorem ops_table_native_spellings:
  "map_option call (map_of (init_ops None) ''%'') = Some ''MODULO''
   \<and> map_option call (map_of (init_ops None) ''^'') = Some ''**''
   \<and> map_option call (map_of (init_ops None) ''**'') = Some ''**''
   \<and> map (native_spellings (init_ops None)) arithmetic_ops
        = [[''+''], [''-''], [''*''], [''/''], [''MODULO''], [''**''], [''**'']]
   \<and> map (native_spellings (init_ops None)) comparison_ops
        = [[''>''], [''<''], [''==''], [''!=''], [''>=''], [''<='']]"
  by code_simp

section \<open>Operation nodes: results\<close>

lemma cast_args_error: "cast_args ds args = Inl e \<Longrightarrow> e = IndexError"
  by (induction ds) (auto split: if_splits)

lemma idx_string_error: "idx_string idx = Inl e \<Longrightarrow> e = AttributeError \<or> e = IndexError"
  by (auto simp: idx_string_def split: option.splits if_splits)

lemma update_index_args_error:
  "update_index_args av pu b args = (Inl e, b') \<Longrightarrow> e = AttributeError \<or> e = IndexError"
  by (auto simp: update_index_args_def Let_def split: option.splits sum.splits prod.splits
           dest: idx_string_error)

text \<open>
  C2. For a symbol of the operator table whose native call spelling is empty,
  \<open>_create_op\<close> raises \<open>NotImplementedError\<close> with no node constructed and the backend
  untouched; for a symbol whose native call spelling is not empty, \<open>_create_op\<close> does
  not raise \<open>NotImplementedError\<close>.
\<close>

theorem create_op_not_implemented:
  "(map_of (ops b) op = Some entry \<and> call entry = [] \<longrightarrow>
      create_op add_var process_update_args_old b op nm args = (Inl NotImplementedError, b))
   \<and> (map_of (ops b) op = Some entry \<and> call entry \<noteq> [] \<longrightarrow>
      fst (create_op add_var process_update_args_old b op nm args) \<noteq> Inl NotImplementedError)"
  by (auto simp: create_op_def
          split: option.splits sum.splits prod.splits if_splits
          dest: cast_args_error update_index_args_error)

theorem create_op_not_implemented_witness:
  "map_of (ops \<lparr>ops = init_ops None, dtypes = [''float32''], idx_l = ''('', idx_r = '')'', vars = ()\<rparr>) ''@''
      = Some \<lparr>name = ''fortrandot'', call = []\<rparr>
   \<and> create_op (\<lambda>b a. (a, b)) (\<lambda>b v u i. ((v, u, i), b))
        \<lparr>ops = init_ops None, dtypes = [''float32''], idx_l = ''('', idx_r = '')'', vars = ()\<rparr>
        ''@'' ''op_0'' [Str ''a'', Str ''b'']
      = (Inl NotImplementedError,
         \<lparr>ops = init_ops None, dtypes = [''float32''], idx_l = ''('', idx_r = '')'', vars = ()\<rparr>)
   \<and> map_of (ops \<lparr>ops = init_ops None, dtypes = [''float32''], idx_l = ''('', idx_r = '')'', vars = ()\<rparr>) ''+''
      = Some \<lparr>name = ''fortran_add'', call = ''+''\<rparr>
   \<and> fst (create_op (\<lambda>b a. (a, b)) (\<lambda>b v u i. ((v, u, i), b))
        \<lparr>ops = init_ops None, dtypes = [''float32''], idx_l = ''('', idx_r = '')'', vars = ()\<rparr>
        ''+'' ''op_1'' [Str ''a'', Str ''b''])
      \<noteq> Inl NotImplementedError"
proof -
  let ?B = "\<lparr>ops = init_ops None, dtypes = [''float32''], idx_l = ''('', idx_r = '')'', vars = ()\<rparr>"
  have h1: "map_of (ops ?B) ''@'' = Some \<lparr>name = ''fortrandot'', call = []\<rparr>"
    by code_simp
  have h2: "map_of (ops ?B) ''+'' = Some \<lparr>name = ''fortran_add'', call = ''+''\<rparr>"
    by code_simp
  have c1: "call \<lparr>name = ''fortrandot'', call = []\<rparr> = []" by simp
  have c2: "call \<lparr>name = ''fortran_add'', call = ''+''\<rparr> \<noteq> []" by simp
  show ?thesis
    using create_op_not_implemented [of ?B "''@''" "\<lparr>name = ''fortrandot'', call = []\<rparr>"
            "\<lambda>b a. (a, b)" "\<lambda>b v u i. ((v, u, i), b)" "''op_0''" "[Str ''a'', Str ''b'']"]
          create_op_not_implemented [of ?B "''+''" "\<lparr>name = ''fortran_add'', call = ''+''\<rparr>"
            "\<lambda>b a. (a, b)" "\<lambda>b v u i. ((v, u, i), b)" "''op_1''" "[Str ''a'', Str ''b'']"]
          h1 h2 c1 c2
    by blast
qed

section \<open>The preparation phase: results\<close>

lemma list_index_first: "x \<notin> set pre \<Longrightarrow> list_index x (pre @ x # post) = Some (length pre)"
  by (induction pre) auto

lemma list_pop_middle: "list_pop (length pre) (pre @ x # post) = Inr (pre @ post)"
  by (simp add: list_pop_def)

lemma remove_None_ops_append:
  "None \<notin> set pre \<Longrightarrow>
   remove_None_ops snap (pre @ snap) = Inr (pre @ filter (\<lambda>x. x \<noteq> None) snap)"
proof (induction snap arbitrary: pre)
  case Nil
  then show ?case by simp
next
  case (Cons op rest)
  show ?case
  proof (cases op)
    case None
    with Cons show ?thesis
      by (simp add: list_index_first list_pop_middle)
  next
    case (Some x)
    have "None \<notin> set (pre @ [op])" using Cons.prems Some by simp
    from Cons.IH [OF this] Some show ?thesis by simp
  qed
qed

lemma remove_None_ops_copy:
  "remove_None_ops layer layer = Inr (filter (\<lambda>x. x \<noteq> None) layer)"
  using remove_None_ops_append [of "[]" layer] by simp

lemma prepare_layers_loop_step:
  "prepare_layers_loop (r # rs) idx st =
     (if stripped st r = [] then
        (case list_pop idx (layers st) of
           Inl e \<Rightarrow> Inl e
         | Inr layers' \<Rightarrow>
             prepare_layers_loop rs idx (st\<lparr>objs := (objs st)(r := stripped st r), layers := layers'\<rparr>))
      else prepare_layers_loop rs (idx + 1) (st\<lparr>objs := (objs st)(r := stripped st r)\<rparr>))"
  unfolding stripped_def by (simp add: remove_None_ops_copy Let_def del: not_None_eq)

lemma stripped_update:
  "stripped (st\<lparr>objs := (objs st)(r := stripped st r), layers := ls\<rparr>) = stripped st"
  "stripped (st\<lparr>objs := (objs st)(r := stripped st r)\<rparr>) = stripped st"
  by (auto simp: stripped_def fun_eq_iff)

lemma prepare_layers_loop_result:
  "layers st = kept @ rs \<Longrightarrow> length kept = idx \<Longrightarrow>
   prepare_layers_loop rs idx st =
     Inr \<lparr>layers = kept @ filter (\<lambda>r. stripped st r \<noteq> []) rs,
          objs = (\<lambda>r. if r \<in> set rs then stripped st r else objs st r)\<rparr>"
proof (induction rs arbitrary: kept idx st)
  case Nil
  then show ?case by simp
next
  case (Cons r rs)
  show ?case
  proof (cases "stripped st r = []")
    case True
    let ?st2 = "st\<lparr>objs := (objs st)(r := stripped st r), layers := kept @ rs\<rparr>"
    have pop: "list_pop idx (layers st) = Inr (kept @ rs)"
      using Cons.prems list_pop_middle [of kept r rs] by simp
    have "prepare_layers_loop rs idx ?st2 =
       Inr \<lparr>layers = kept @ filter (\<lambda>r. stripped ?st2 r \<noteq> []) rs,
            objs = (\<lambda>r. if r \<in> set rs then stripped ?st2 r else objs ?st2 r)\<rparr>"
      using Cons.prems by (intro Cons.IH) simp_all
    also have "\<dots> = Inr \<lparr>layers = kept @ filter (\<lambda>r. stripped st r \<noteq> []) (r # rs),
          objs = (\<lambda>r'. if r' \<in> set (r # rs) then stripped st r' else objs st r')\<rparr>"
      unfolding stripped_update using True by (auto simp: fun_eq_iff)
    finally show ?thesis
      using True pop by (simp add: prepare_layers_loop_step del: prepare_layers_loop.simps)
  next
    case False
    let ?st1 = "st\<lparr>objs := (objs st)(r := stripped st r)\<rparr>"
    have "prepare_layers_loop rs (idx + 1) ?st1 =
       Inr \<lparr>layers = (kept @ [r]) @ filter (\<lambda>r. stripped ?st1 r \<noteq> []) rs,
            objs = (\<lambda>r. if r \<in> set rs then stripped ?st1 r else objs ?st1 r)\<rparr>"
      using Cons.prems by (intro Cons.IH) simp_all
    also have "\<dots> = Inr \<lparr>layers = kept @ filter (\<lambda>r. stripped st r \<noteq> []) (r # rs),
          objs = (\<lambda>r'. if r' \<in> set (r # rs) then stripped st r' else objs st r')\<rparr>"
      unfolding stripped_update using False by (auto simp: fun_eq_iff)
    finally show ?thesis
      using False by (simp add: prepare_layers_loop_step del: prepare_layers_loop.simps)
  qed
qed

lemma concat_filter_nonempty: "concat (filter (\<lambda>xs. xs \<noteq> []) xss) = concat xss"
  by (induction xss) auto

lemma prepare_layers_result:
  "prepare_layers st =
     Inr \<lparr>layers = filter (\<lambda>r. stripped st r \<noteq> []) (layers st),
          objs = (\<lambda>r. if r \<in> set (layers st) then stripped st r else objs st r)\<rparr>"
  unfolding prepare_layers_def
  using prepare_layers_loop_result [of st "[]" "layers st" 0] by simp

text \<open>
  C5. Whatever layers the backend holds when \<open>compile\<close> starts, the preparation phase
  ends without an exception; afterwards every remaining layer is non-empty and holds no
  \<open>None\<close>, the remaining layers are the original layers stripped of their \<open>None\<close>
  entries with the empty ones left out, so the surviving operations are exactly the
  original operations other than \<open>None\<close>, and layers and operations are in their
  original order.
\<close>

theorem prepare_layers_correct:
  "\<exists>st'. prepare_layers st = Inr st'
     \<and> (\<forall>layer \<in> set (layer_contents st'). layer \<noteq> [] \<and> None \<notin> set layer)
     \<and> layer_contents st'
          = filter (\<lambda>layer. layer \<noteq> []) (map (filter (\<lambda>op. op \<noteq> None)) (layer_contents st))
     \<and> concat (layer_contents st') = filter (\<lambda>op. op \<noteq> None) (concat (layer_contents st))
     \<and> layers st' = filter (\<lambda>r. filter (\<lambda>op. op \<noteq> None) (objs st r) \<noteq> []) (layers st)"
proof -
  let ?st' = "\<lparr>layers = filter (\<lambda>r. stripped st r \<noteq> []) (layers st),
          objs = (\<lambda>r. if r \<in> set (layers st) then stripped st r else objs st r)\<rparr>"
  have contents: "layer_contents ?st'
      = filter (\<lambda>layer. layer \<noteq> []) (map (filter (\<lambda>op. op \<noteq> None)) (layer_contents st))"
    by (simp add: layer_contents_def filter_map comp_def stripped_def [abs_def] cong: map_cong)
  have "\<forall>layer \<in> set (layer_contents ?st'). layer \<noteq> [] \<and> None \<notin> set layer"
    unfolding contents by auto
  moreover have "concat (layer_contents ?st') = filter (\<lambda>op. op \<noteq> None) (concat (layer_contents st))"
    unfolding contents by (simp only: concat_filter_nonempty filter_concat)
  moreover have "layers ?st' = filter (\<lambda>r. filter (\<lambda>op. op \<noteq> None) (objs st r) \<noteq> []) (layers st)"
    by (simp add: stripped_def)
  ultimately show ?thesis
    using contents prepare_layers_result [of st] by blast
qed

theorem prepare_layers_correct_witness:
  "\<exists>st'. prepare_layers \<lparr>layers = [0, 1, 2, 0],
                           objs = (\<lambda>r. if r = 0 then [None, Some ''a'', None, Some ''b'']
                                        else if r = 1 then [None, None] else if r = 2 then [Some ''c''] else [])\<rparr>
            = Inr st'
     \<and> layer_contents st' = [[Some ''a'', Some ''b''], [Some ''c''], [Some ''a'', Some ''b'']]
     \<and> layers st' = [0, 2, 0]"
  using prepare_layers_correct
          [of "\<lparr>layers = [0, 1, 2, 0],
                objs = (\<lambda>r. if r = 0 then [None, Some ''a'', None, Some ''b'']
                             else if r = 1 then [None, None] else if r = 2 then [Some ''c''] else [])\<rparr>"]
  by (auto simp: layer_contents_def)

section \<open>Vectorized nodes: results\<close>

lemma update_fresh: "k \<notin> fst ` set al \<Longrightarrow> AList.update k v al = al @ [(k, v)]"
  by (induction al) auto

lemma wrap_values_append:
  "distinct (map fst acc @ map fst items) \<Longrightarrow>
   wrap_values items acc = acc @ map (\<lambda>(var_key, value). (var_key, [value])) items"
proof (induction items arbitrary: acc)
  case Nil
  then show ?case by simp
next
  case (Cons kv items)
  obtain k v where kv: "kv = (k, v)" by (cases kv)
  have fresh: "k \<notin> fst ` set acc" using Cons.prems kv by auto
  have "distinct (map fst (acc @ [(k, [v])]) @ map fst items)"
    using Cons.prems kv by auto
  from Cons.IH [OF this] show ?case
    by (simp add: kv update_fresh [OF fresh])
qed

lemma vectorize_values_append:
  "distinct (map fst acc @ map fst items) \<Longrightarrow>
   vectorize_values items acc = acc @ map (\<lambda>(op_key, value_dict). (op_key, wrap_values value_dict [])) items"
proof (induction items arbitrary: acc)
  case Nil
  then show ?case by simp
next
  case (Cons kv items)
  obtain k v where kv: "kv = (k, v)" by (cases kv)
  have fresh: "k \<notin> fst ` set acc" using Cons.prems kv by auto
  have "distinct (map fst (acc @ [(k, wrap_values v [])]) @ map fst items)"
    using Cons.prems kv by auto
  from Cons.IH [OF this] show ?case
    by (simp add: kv update_fresh [OF fresh])
qed

lemma vectorize_values_dict:
  assumes "is_dict d" and "\<forall>(op_key, value_dict) \<in> set d. is_dict value_dict"
  shows "vectorize_values d [] =
           map (\<lambda>(op_key, value_dict). (op_key, map (\<lambda>(var_key, value). (var_key, [value])) value_dict)) d"
proof -
  have "vectorize_values d [] = map (\<lambda>(op_key, value_dict). (op_key, wrap_values value_dict [])) d"
    using assms(1) vectorize_values_append [of "[]" d] by (simp add: is_dict_def)
  also have "\<dots> = map (\<lambda>(op_key, value_dict). (op_key, map (\<lambda>(var_key, value). (var_key, [value])) value_dict)) d"
    using assms(2) wrap_values_append [of "[]"] by (auto simp: is_dict_def)
  finally show ?thesis .
qed

lemma map_fst_wrapped_inner:
  "map fst (map (\<lambda>(var_key, value). (var_key, [value])) vd) = map fst vd"
  by (induction vd) auto

lemma map_of_wrapped_inner:
  "map_of vd k = Some v \<Longrightarrow> map_of (map (\<lambda>(var_key, value). (var_key, [value])) vd) k = Some [v]"
  by (induction vd) (auto split: if_splits)

lemma map_fst_wrapped:
  "map fst (map (\<lambda>(op_key, value_dict). (op_key, f value_dict)) d) = map fst d"
  by (induction d) auto

lemma map_of_wrapped:
  "map_of d k = Some vd \<Longrightarrow>
   map_of (map (\<lambda>(op_key, value_dict). (op_key, f value_dict)) d) k = Some (f vd)"
  by (induction d) (auto split: if_splits)

lemma VectorizedNodeIR_init_no_values:
  "node_values node = None \<Longrightarrow> VectorizedNodeIR_init copy_graph node = Inl AttributeError"
  by (simp add: VectorizedNodeIR_init_def)

text \<open>
  C10. Constructing a \<open>VectorizedNodeIR\<close> from a \<open>NodeIR\<close> whose \<open>values\<close> is a
  dictionary of dictionaries succeeds and wraps every value in a one-element list:
  for every operator key and variable key of the source mapping the new node holds
  the list with exactly the original value, the operator keys and the variable keys
  are unchanged (and in the same order), and the source node is as it was.
\<close>

theorem VectorizedNodeIR_wraps_values:
  assumes "node_values node = Some d"
      and "is_dict d"
      and "\<forall>(op_key, value_dict) \<in> set d. is_dict value_dict"
  shows "\<exists>vnode d'. VectorizedNodeIR_init copy_graph node = Inr (node, vnode)
           \<and> node_values vnode = Some d'
           \<and> (\<forall>op_key value_dict. map_of d op_key = Some value_dict \<longrightarrow>
                 (\<exists>op_values. map_of d' op_key = Some op_values
                    \<and> map fst op_values = map fst value_dict
                    \<and> (\<forall>var_key value. map_of value_dict var_key = Some value \<longrightarrow>
                          map_of op_values var_key = Some [value])))
           \<and> map fst d' = map fst d"
proof -
  let ?w = "\<lambda>value_dict. map (\<lambda>(var_key, value). (var_key, [value])) value_dict"
  let ?d' = "map (\<lambda>(op_key, value_dict). (op_key, ?w value_dict)) d"
  let ?vnode = "\<lparr>template = template node, op_graph = copy_graph (op_graph node), node_values = Some ?d'\<rparr>"
  have init: "VectorizedNodeIR_init copy_graph node = Inr (node, ?vnode)"
    using assms by (simp add: VectorizedNodeIR_init_def vectorize_values_dict)
  have keys: "map fst ?d' = map fst d"
    by (rule map_fst_wrapped)
  note inner_keys = map_fst_wrapped_inner
  note inner = map_of_wrapped_inner
  have outer: "map_of d k = Some vd \<Longrightarrow> map_of ?d' k = Some (?w vd)" for k vd
    by (rule map_of_wrapped)
  have sel: "node_values ?vnode = Some ?d'"
    by simp
  have lookups: "\<forall>op_key value_dict. map_of d op_key = Some value_dict \<longrightarrow>
                 (\<exists>op_values. map_of ?d' op_key = Some op_values
                    \<and> map fst op_values = map fst value_dict
                    \<and> (\<forall>var_key value. map_of value_dict var_key = Some value \<longrightarrow>
                          map_of op_values var_key = Some [value]))"
  proof (intro allI impI)
    fix op_key value_dict
    assume present: "map_of d op_key = Some value_dict"
    show "\<exists>op_values. map_of ?d' op_key = Some op_values
                    \<and> map fst op_values = map fst value_dict
                    \<and> (\<forall>var_key value. map_of value_dict var_key = Some value \<longrightarrow>
                          map_of op_values var_key = Some [value])"
    proof (intro exI [of _ "?w value_dict"] conjI allI impI)
      show "map_of ?d' op_key = Some (?w value_dict)"
        by (rule outer [OF present])
      show "map fst (?w value_dict) = map fst value_dict"
        by (rule inner_keys)
      fix var_key val
      assume "map_of value_dict var_key = Some val"
      then show "map_of (?w value_dict) var_key = Some [val]"
        by (rule inner)
    qed
  qed
  show ?thesis
    by (intro exI [of _ ?vnode] exI [of _ ?d'] conjI) (rule init sel lookups keys)+
qed

theorem VectorizedNodeIR_wraps_values_witness:
  "is_dict [(''op1'', [(''a'', 1::int), (''b'', 2)]), (''op2'', [(''c'', 3)])]
   \<and> is_dict [(''a'', 1::int), (''b'', 2)]
   \<and> is_dict [(''c'', 3::int)]
   \<and> (\<exists>vnode d'.
         VectorizedNodeIR_init (\<lambda>g. g)
           \<lparr>template = None, op_graph = (),
            node_values = Some [(''op1'', [(''a'', 1::int), (''b'', 2)]), (''op2'', [(''c'', 3)])]\<rparr>
         = Inr (\<lparr>template = None, op_graph = (),
                 node_values = Some [(''op1'', [(''a'', 1::int), (''b'', 2)]), (''op2'', [(''c'', 3)])]\<rparr>,
                vnode)
         \<and> node_values vnode = Some d'
         \<and> (\<exists>op_values. map_of d' ''op1'' = Some op_values
               \<and> map fst op_values = [''a'', ''b'']
               \<and> map_of op_values ''b'' = Some [2])
         \<and> map fst d' = [''op1'', ''op2''])"
proof -
  let ?d = "[(''op1'', [(''a'', 1::int), (''b'', 2)]), (''op2'', [(''c'', 3)])]"
  let ?node = "\<lparr>template = None, op_graph = (), node_values = Some ?d\<rparr>"
  have h1: "node_values ?node = Some ?d" by simp
  have h2: "is_dict ?d" by (simp add: is_dict_def)
  have h3: "\<forall>(op_key, value_dict) \<in> set ?d. is_dict value_dict" by (simp add: is_dict_def)
  have l1: "map_of ?d ''op1'' = Some [(''a'', 1), (''b'', 2)]" by simp
  have l2: "map_of [(''a'', 1::int), (''b'', 2)] ''b'' = Some 2" by simp
  from VectorizedNodeIR_wraps_values [OF h1 h2 h3, of "\<lambda>g. g"]
  obtain vnode d' where
      r1: "VectorizedNodeIR_init (\<lambda>g. g) ?node = Inr (?node, vnode)"
      and r2: "node_values vnode = Some d'"
      and r3: "\<forall>op_key value_dict. map_of ?d op_key = Some value_dict \<longrightarrow>
                 (\<exists>op_values. map_of d' op_key = Some op_values
                    \<and> map fst op_values = map fst value_dict
                    \<and> (\<forall>var_key value. map_of value_dict var_key = Some value \<longrightarrow>
                          map_of op_values var_key = Some [value]))"
      and r4: "map fst d' = map fst ?d"
    by blast
  from r3 l1 obtain op_values where
      o1: "map_of d' ''op1'' = Some op_values"
      and o2: "map fst op_values = map fst [(''a'', 1::int), (''b'', 2)]"
      and o3: "\<forall>var_key value. map_of [(''a'', 1::int), (''b'', 2)] var_key = Some value \<longrightarrow>
                          map_of op_values var_key = Some [value]"
    by blast
  from o3 l2 have o4: "map_of op_values ''b'' = Some [2]" by blast
  from o2 have o5: "map fst op_values = [''a'', ''b'']" by simp
  from r4 have r5: "map fst d' = [''op1'', ''op2'']" by simp
  have inner: "\<exists>op_values. map_of d' ''op1'' = Some op_values
               \<and> map fst op_values = [''a'', ''b'']
               \<and> map_of op_values ''b'' = Some [2]"
    by (rule exI [of _ op_values]) (intro conjI o1 o5 o4)
  have "\<exists>vnode d'. VectorizedNodeIR_init (\<lambda>g. g) ?node = Inr (?node, vnode)
         \<and> node_values vnode = Some d'
         \<and> (\<exists>op_values. map_of d' ''op1'' = Some op_values
               \<and> map fst op_values = [''a'', ''b'']
               \<and> map_of op_values ''b'' = Some [2])
         \<and> map fst d' = [''op1'', ''op2'']"
    by (rule exI [of _ vnode], rule exI [of _ d']) (intro conjI r1 r2 inner r5)
  moreover have "is_dict [(''a'', 1::int), (''b'', 2)]" and "is_dict [(''c'', 3::int)]"
    by (simp_all add: is_dict_def)
  ultimately show ?thesis
    using h2 by (intro conjI)
qed

section \<open>The equation layer: results\<close>

text \<open>
  C3. For every equation in differential mode, one evaluation step replaces the value
  \<open>v\<close> of the target variable by \<open>v + evaluate(rhs) * dt\<close>, the explicit forward Euler
  step; in particular, for \<open>d/dt * a = 5. + 2.\<close> with \<open>a\<close> initially \<open>0\<close> and
  \<open>dt = 0.1\<close>, the value of \<open>a\<close> after one step is \<open>0.7\<close>.
\<close>

theorem differential_update_is_euler_step:
  "(mode eq = Differential \<longrightarrow>
      update_rule eq dt s (target eq) = s (target eq) + evaluate (rhs eq) s * dt)
   \<and> update_rule \<lparr>target = ''a'', rhs = (\<lambda>s. 5 + 2), mode = Differential\<rparr> (1 / 10) (\<lambda>v. 0) ''a''
        = 7 / 10"
  by (simp add: update_rule_def evaluate_def)

theorem differential_update_is_euler_step_witness:
  "mode \<lparr>target = ''x'', rhs = (\<lambda>s. 2 * s ''b''), mode = Differential\<rparr> = Differential
   \<and> update_rule \<lparr>target = ''x'', rhs = (\<lambda>s. 2 * s ''b''), mode = Differential\<rparr> (1 / 2)
        (\<lambda>v. if v = ''b'' then 3 else 1) ''x'' = 4"
  using differential_update_is_euler_step
          [of "\<lparr>target = ''x'', rhs = (\<lambda>s. 2 * s ''b''), mode = Differential\<rparr>" "1 / 2"
              "\<lambda>v. if v = ''b'' then 3 else 1"]
  by (simp add: evaluate_def)

lemma evaluate_step_zero_dt:
  "\<forall>eq \<in> set eqs. mode eq = Differential \<Longrightarrow> evaluate_step eqs 0 s = s"
  by (induction eqs arbitrary: s) (auto simp: update_rule_def)

text \<open>
  C6. For every equation in differential mode and every state, one evaluation step
  with \<open>dt = 0\<close> leaves the value of the target variable unchanged (indeed the whole
  state, also for a set of differential equations).
\<close>

theorem differential_update_zero_dt:
  "(mode eq = Differential \<longrightarrow>
      update_rule eq 0 s (target eq) = s (target eq) \<and> update_rule eq 0 s = s)
   \<and> ((\<forall>eq \<in> set eqs. mode eq = Differential) \<longrightarrow> evaluate_step eqs 0 s = s)"
  by (auto simp: update_rule_def evaluate_step_zero_dt)

theorem differential_update_zero_dt_witness:
  "mode \<lparr>target = ''a'', rhs = (\<lambda>s. 5 + 2), mode = Differential\<rparr> = Differential
   \<and> update_rule \<lparr>target = ''a'', rhs = (\<lambda>s. 5 + 2), mode = Differential\<rparr> 0
        (\<lambda>v. if v = ''a'' then 3 else 0) ''a'' = 3
   \<and> evaluate_step [\<lparr>target = ''a'', rhs = (\<lambda>s. 5 + 2), mode = Differential\<rparr>,
                     \<lparr>target = ''b'', rhs = (\<lambda>s. s ''a''), mode = Differential\<rparr>] 0
        (\<lambda>v. if v = ''a'' then 3 else 0) = (\<lambda>v. if v = ''a'' then 3 else 0)"
proof -
  let ?a = "\<lparr>target = ''a'', rhs = (\<lambda>s. 5 + 2), mode = Differential\<rparr>"
  let ?b = "\<lparr>target = ''b'', rhs = (\<lambda>s. s ''a''), mode = Differential\<rparr>"
  let ?s = "\<lambda>v. if v = ''a'' then 3 else (0::real)"
  have h1: "mode ?a = Differential" by simp
  have h2: "\<forall>eq \<in> set [?a, ?b]. mode eq = Differential" by simp
  have t: "target ?a = ''a''" by simp
  have s: "?s ''a'' = 3" by simp
  from differential_update_zero_dt [of ?a ?s "[?a, ?b]"] h1 h2
  have "update_rule ?a 0 ?s (target ?a) = ?s (target ?a)" and "evaluate_step [?a, ?b] 0 ?s = ?s"
    by blast+
  with h1 show ?thesis unfolding t s by (intro conjI)
qed

section \<open>Slice arguments: results\<close>

lemma split_on_nonempty: "split_on sep s \<noteq> []"
  by (induction s) (auto split: list.splits)

lemma length_split_on: "length (split_on sep s) = Suc (length (filter (\<lambda>c. c = sep) s))"
  by (induction s) (auto split: list.splits simp: split_on_nonempty)

lemma parse_index_arg_too_many_colons:
  "colon_count s > 2 \<Longrightarrow> parse_index_arg s = Inl SyntaxError"
proof -
  assume "colon_count s > 2"
  then have "length (split_on CHR '':'' s) > 3"
    by (simp add: length_split_on colon_count_def)
  then show ?thesis
    by (auto simp: parse_index_arg_def split: list.splits)
qed

lemma parse_index_arg_error: "parse_index_arg s = Inl e \<Longrightarrow> e = SyntaxError"
  by (auto simp: parse_index_arg_def split: list.splits)

lemma parse_index_args_error: "parse_index_args as = Inl e \<Longrightarrow> e = SyntaxError"
  by (induction as arbitrary: e) (auto split: sum.splits dest: parse_index_arg_error)

lemma parse_index_args_too_many_colons:
  "\<exists>a \<in> set as. colon_count a > 2 \<Longrightarrow> parse_index_args as = Inl SyntaxError"
proof (induction as)
  case Nil
  then show ?case by simp
next
  case (Cons a as)
  show ?case
  proof (cases "parse_index_arg a")
    case (Inl e)
    then show ?thesis using parse_index_arg_error [OF Inl] by simp
  next
    case (Inr x)
    then have "\<not> colon_count a > 2"
      using parse_index_arg_too_many_colons [of a] by auto
    with Cons.prems have "\<exists>a \<in> set as. colon_count a > 2" by auto
    from Cons.IH [OF this] Inr show ?thesis by simp
  qed
qed

text \<open>
  C7. An indexing expression with a slice argument of more than two colons, such as
  \<open>A[0:5:2:1]\<close>, fails with a \<open>SyntaxError\<close> instead of producing a value.
\<close>

theorem slice_with_more_than_two_colons_fails:
  "(colon_count arg > 2 \<longrightarrow> parse_index_arg arg = Inl SyntaxError)
   \<and> (index_arguments expr = Some args \<and> (\<exists>a \<in> set args. colon_count a > 2) \<longrightarrow>
        parse_index_expr expr = Inl SyntaxError)
   \<and> parse_index_expr ''A[0:5:2:1]'' = Inl SyntaxError"
proof (intro conjI impI)
  assume "colon_count arg > 2"
  then show "parse_index_arg arg = Inl SyntaxError"
    by (rule parse_index_arg_too_many_colons)
next
  assume "index_arguments expr = Some args \<and> (\<exists>a \<in> set args. colon_count a > 2)"
  then show "parse_index_expr expr = Inl SyntaxError"
    by (simp add: parse_index_expr_def parse_index_args_too_many_colons)
next
  show "parse_index_expr ''A[0:5:2:1]'' = Inl SyntaxError"
    by (simp add: parse_index_expr_def index_arguments_def parse_index_arg_def)
qed

theorem slice_with_more_than_two_colons_fails_witness:
  "colon_count ''-1::0:-1'' > 2
   \<and> parse_index_arg ''-1::0:-1'' = Inl SyntaxError
   \<and> index_arguments ''A[5,0:5:2:1]'' = Some [''5'', ''0:5:2:1'']
   \<and> (\<exists>a \<in> set [''5'', ''0:5:2:1'']. colon_count a > 2)
   \<and> parse_index_expr ''A[5,0:5:2:1]'' = Inl SyntaxError"
proof -
  have h1: "colon_count ''-1::0:-1'' > 2"
    by (simp add: colon_count_def)
  have h2: "index_arguments ''A[5,0:5:2:1]'' = Some [''5'', ''0:5:2:1'']"
    by (simp add: index_arguments_def)
  have h3: "\<exists>a \<in> set [''5'', ''0:5:2:1'']. colon_count a > 2"
    by (simp add: colon_count_def)
  from slice_with_more_than_two_colons_fails
         [of "''-1::0:-1''" "''A[5,0:5:2:1]''" "[''5'', ''0:5:2:1'']"] h1 h2 h3
  show ?thesis by blast
qed

section \<open>Line wrapping of generated code: results\<close>

lemma str_find_lt: "str_find sub s = Some i \<Longrightarrow> sub \<noteq> [] \<Longrightarrow> i < length s"
  by (induction s arbitrary: i) (auto split: if_splits)

lemma list_max_lt: "\<forall>x \<in> set xs. x < b \<Longrightarrow> 0 < b \<Longrightarrow> list_max xs < b"
  by (induction xs) auto

lemma length_py_slice: "stop \<le> length xs \<Longrightarrow> length (py_slice xs start stop) = stop - start"
  by (auto simp: py_slice_def)

lemma split_ops_nonempty: "op \<in> set split_ops \<Longrightarrow> op \<noteq> []"
  by (auto simp: split_ops_def)

lemma find_first_op_lt:
  assumes "find_first_op t start stop = Inr k" and "stop < length t" and "start < stop"
  shows "k < stop - start"
proof -
  let ?tmp = "py_slice t start stop"
  let ?indices = "List.map_filter (\<lambda>op. str_find op ?tmp) split_ops"
  have len: "length ?tmp = stop - start"
    using assms(2) by (simp add: length_py_slice)
  have "\<forall>x \<in> set ?indices. x < length ?tmp"
    using str_find_lt split_ops_nonempty by (fastforce simp: List.map_filter_def)
  then have "list_max ?indices < stop - start"
    using len assms(3) list_max_lt [of ?indices "stop - start"] by simp
  moreover have "length ?tmp - 1 - i < stop - start" for i
    using len assms(3) by simp
  ultimately show ?thesis
    using assms(1,2) by (auto simp: find_first_op_def Let_def split: if_splits option.splits)
qed

lemma chunk_length:
  assumes "find_first_op t idx (idx + 60) = Inr k"
  shows "length (py_slice t idx (idx + k)) \<le> 60"
proof (cases "idx + 60 < length t")
  case True
  from find_first_op_lt [OF assms True] have "k < 60" by simp
  then show ?thesis by (simp add: py_slice_def)
next
  case False
  then show ?thesis by (simp add: py_slice_def)
qed

lemma wrap_loop_segments:
  assumes "wrap_loop t idx g = Some y"
  shows "fst y = Returned \<longrightarrow>
           (\<exists>chunks m. code (snd y) = code g @ concat (map (\<lambda>c. [newline, continuation @ c]) chunks)
              \<and> (\<forall>c \<in> set chunks. length c \<le> 60)
              \<and> concat chunks = take m (drop idx t)
              \<and> (idx < 60 \<longrightarrow> chunks \<noteq> []))"
proof -
  let ?P = "\<lambda>t idx g y. fst y = Returned \<longrightarrow>
           (\<exists>chunks m. code (snd y) = code g @ concat (map (\<lambda>c. [newline, continuation @ c]) chunks)
              \<and> (\<forall>c \<in> set chunks. length c \<le> 60)
              \<and> concat chunks = take m (drop idx t)
              \<and> (idx < 60 \<longrightarrow> chunks \<noteq> []))"
  have "?P t idx g y"
  proof (rule wrap_loop.raw_induct [where P = ?P, OF _ assms])
    fix loop :: "string \<Rightarrow> nat \<Rightarrow> codegen \<Rightarrow> (outcome \<times> codegen) option"
      and t :: string and idx :: nat and g :: codegen and y :: "outcome \<times> codegen"
    assume IH: "\<And>t idx g y. loop t idx g = Some y \<Longrightarrow> ?P t idx g y"
    assume body: "(if idx < 60 then
        (let g1 = add_linebreak g
         in case find_first_op t idx (idx + 60) of
              Inl e \<Rightarrow> Some (Raised e, g1)
            | Inr idx_new \<Rightarrow>
                loop t (idx + idx_new)
                  (g1\<lparr>code := code g1 @ [continuation @ py_slice t idx (idx + idx_new)]\<rparr>))
      else Some (Returned, g)) = Some y"
    show "?P t idx g y"
    proof (cases "idx < 60")
      case False
      with body have "y = (Returned, g)" by simp
      then show ?thesis
        using False by (intro impI exI [of _ "[]"] exI [of _ 0]) simp
    next
      case True
      show ?thesis
      proof (cases "find_first_op t idx (idx + 60)")
        case (Inl e)
        with True body show ?thesis by (auto simp: Let_def)
      next
        case (Inr k)
        let ?c = "py_slice t idx (idx + k)"
        let ?g2 = "(add_linebreak g)\<lparr>code := code (add_linebreak g) @ [continuation @ ?c]\<rparr>"
        from True Inr body have call: "loop t (idx + k) ?g2 = Some y"
          by (simp add: Let_def)
        show ?thesis
        proof
          assume ret: "fst y = Returned"
          from IH [OF call] ret obtain chunks m where
              cd: "code (snd y) = code ?g2 @ concat (map (\<lambda>c. [newline, continuation @ c]) chunks)"
              and len: "\<forall>c \<in> set chunks. length c \<le> 60"
              and cat: "concat chunks = take m (drop (idx + k) t)"
            by blast
          have c: "?c = take k (drop idx t)"
            by (simp add: py_slice_def)
          have "code (snd y) = code g @ concat (map (\<lambda>c. [newline, continuation @ c]) (?c # chunks))"
            using cd by (simp add: add_linebreak_def)
          moreover have "\<forall>c \<in> set (?c # chunks). length c \<le> 60"
            using len chunk_length [OF Inr] by simp
          moreover have "concat (?c # chunks) = take (k + m) (drop idx t)"
            using cat c by (simp add: take_add add.commute)
          ultimately show "\<exists>chunks m. code (snd y) = code g @ concat (map (\<lambda>c. [newline, continuation @ c]) chunks)
                \<and> (\<forall>c \<in> set chunks. length c \<le> 60)
                \<and> concat chunks = take m (drop idx t)
                \<and> (idx < 60 \<longrightarrow> chunks \<noteq> [])"
            by (intro exI [of _ "?c # chunks"] exI [of _ "k + m"]) simp
        qed
      qed
    qed
  qed
  then show ?thesis .
qed

text \<open>
  C4, as the code has it. Whenever \<open>add_code_line\<close> returns, a line of at most 60
  characters (after indentation) has been added unchanged as a single segment; for a
  longer line the first segment added holds fewer than 60 characters from the start of
  the line, and every further segment follows a line break and is the continuation
  prefix (five blanks and \<open>& \<close>) followed by the next at most 60 characters of the
  line, hence at most 67 characters long. The texts of the segments are consecutive
  pieces of the line: concatenated they are an initial part of it.
\<close>

theorem add_code_line_segments:
  assumes "add_code_line g code_str = Some (Returned, g')"
  shows "\<exists>first chunks.
           appended g g' = first # concat (map (\<lambda>c. [newline, continuation @ c]) chunks)
           \<and> code g' = code g @ appended g g'
           \<and> length first \<le> 60
           \<and> (\<forall>c \<in> set chunks. length c \<le> 60 \<and> length (continuation @ c) \<le> 67)
           \<and> prefix (first @ concat chunks) (indented_line g code_str)
           \<and> (length (indented_line g code_str) \<le> 60 \<longrightarrow>
                 first = indented_line g code_str \<and> chunks = [])
           \<and> (length (indented_line g code_str) > 60 \<longrightarrow> length first < 60 \<and> chunks \<noteq> [])"
proof (cases "length (indented_line g code_str) > 60")
  case False
  with assms have "g' = g\<lparr>code := code g @ [indented_line g code_str]\<rparr>"
    by (simp add: add_code_line_def Let_def)
  then show ?thesis
    using False
    by (intro exI [of _ "indented_line g code_str"] exI [of _ "[]"]) (simp add: appended_def)
next
  case True
  let ?t = "indented_line g code_str"
  from True assms obtain idx where
      first: "find_first_op ?t 0 60 = Inr idx"
      and loop: "wrap_loop ?t idx (g\<lparr>code := code g @ [py_slice ?t 0 idx]\<rparr>) = Some (Returned, g')"
    by (auto simp: add_code_line_def Let_def split: sum.splits)
  from find_first_op_lt [OF first] True have idx: "idx < 60" by simp
  from wrap_loop_segments [OF loop] obtain chunks m where
      cd0: "code g' = (code g @ [py_slice ?t 0 idx]) @ concat (map (\<lambda>c. [newline, continuation @ c]) chunks)"
      and len: "\<forall>c \<in> set chunks. length c \<le> 60"
      and cat: "concat chunks = take m (drop idx ?t)"
      and ne: "idx < 60 \<longrightarrow> chunks \<noteq> []"
    by auto
  let ?first = "py_slice ?t 0 idx"
  have f: "?first = take idx ?t" by (simp add: py_slice_def)
  have app: "appended g g' = ?first # concat (map (\<lambda>c. [newline, continuation @ c]) chunks)"
    using cd0 by (simp add: appended_def)
  have "?first @ concat chunks = take (idx + m) ?t"
    using cat f by (simp add: take_add)
  then have pre: "prefix (?first @ concat chunks) ?t"
    by (simp add: take_is_prefix)
  have lens: "\<forall>c \<in> set chunks. length c \<le> 60 \<and> length (continuation @ c) \<le> 67"
    using len by (auto simp: continuation_def)
  have cd: "code g' = code g @ appended g g'"
    using cd0 app by simp
  have fl: "length ?first \<le> 60" "length ?first < 60"
    using idx f by simp_all
  have short: "length ?t \<le> 60 \<longrightarrow> ?first = ?t \<and> chunks = []"
    using True by simp
  have long: "length ?t > 60 \<longrightarrow> length ?first < 60 \<and> chunks \<noteq> []"
    using fl ne idx by simp
  show ?thesis
    by (intro exI [of _ ?first] exI [of _ chunks] conjI) (rule app cd fl lens pre short long)+
qed

theorem add_code_line_segments_witness:
  "add_code_line \<lparr>code = [newline], lvl = 1\<rparr>
       ''double precision, intent(inout) :: dfdu(ndim,ndim), dfdp(ndim,*)''
     = Some (Returned,
             \<lparr>code = [newline, tab # ''double precision, intent(inout) :: dfdu(ndim,ndim),'',
                      newline, ''     &  dfdp(ndim,*)''],
              lvl = 1\<rparr>)
   \<and> (\<exists>first chunks.
         appended \<lparr>code = [newline], lvl = 1\<rparr>
             \<lparr>code = [newline, tab # ''double precision, intent(inout) :: dfdu(ndim,ndim),'',
                      newline, ''     &  dfdp(ndim,*)''],
              lvl = 1\<rparr>
           = first # concat (map (\<lambda>c. [newline, continuation @ c]) chunks)
         \<and> length first \<le> 60
         \<and> (\<forall>c \<in> set chunks. length c \<le> 60 \<and> length (continuation @ c) \<le> 67)
         \<and> prefix (first @ concat chunks)
              (indented_line \<lparr>code = [newline], lvl = 1\<rparr>
                 ''double precision, intent(inout) :: dfdu(ndim,ndim), dfdp(ndim,*)''))"
proof -
  have returns: "add_code_line \<lparr>code = [newline], lvl = 1\<rparr>
       ''double precision, intent(inout) :: dfdu(ndim,ndim), dfdp(ndim,*)''
     = Some (Returned,
             \<lparr>code = [newline, tab # ''double precision, intent(inout) :: dfdu(ndim,ndim),'',
                      newline, ''     &  dfdp(ndim,*)''],
              lvl = 1\<rparr>)"
    by code_simp
  from add_code_line_segments [OF returns] returns show ?thesis
    by blast
qed

text \<open>
  C4 as stated fails: for the 67 characters below the second segment is 65 characters
  long, and the text \<open>+ c\<close> at the end of the line is in no segment (the loop stops as
  soon as \<open>idx\<close> reaches 60, not at the end of the line).
\<close>

theorem add_code_line_long_segment_and_lost_text:
  "add_code_line \<lparr>code = [], lvl = 0\<rparr>
       ''r = a * bbbbbbbbbbbbbbbbbbbbbbbbbbbbbbbbbbbbbbbbbbbbbbbbbbbbbbb + c''
     = Some (Returned,
             \<lparr>code = [''r = a '', newline,
                      ''     & * bbbbbbbbbbbbbbbbbbbbbbbbbbbbbbbbbbbbbbbbbbbbbbbbbbbbbbb ''],
              lvl = 0\<rparr>)
   \<and> length ''r = a * bbbbbbbbbbbbbbbbbbbbbbbbbbbbbbbbbbbbbbbbbbbbbbbbbbbbbbb + c'' = 67
   \<and> length ''     & * bbbbbbbbbbbbbbbbbbbbbbbbbbbbbbbbbbbbbbbbbbbbbbbbbbbbbbb '' = 65
   \<and> \<not> length ''     & * bbbbbbbbbbbbbbbbbbbbbbbbbbbbbbbbbbbbbbbbbbbbbbbbbbbbbbb '' \<le> 60
   \<and> ''r = a '' @ ''* bbbbbbbbbbbbbbbbbbbbbbbbbbbbbbbbbbbbbbbbbbbbbbbbbbbbbbb ''
       \<noteq> ''r = a * bbbbbbbbbbbbbbbbbbbbbbbbbbbbbbbbbbbbbbbbbbbbbbbbbbbbbbb + c''"
  by code_simp

text \<open>
  The loop does not advance when \<open>_find_first_op\<close> answers \<open>0\<close>, and then never ends;
  and the search for a blank raises when the first 60 characters hold neither an
  operator nor a blank.
\<close>

lemma wrap_loop_no_progress:
  assumes "idx < 60" and "find_first_op t idx (idx + 60) = Inr 0"
  shows "wrap_loop t idx g = None"
proof (rule ccontr)
  assume "wrap_loop t idx g \<noteq> None"
  then obtain y where ret: "wrap_loop t idx g = Some y" by auto
  let ?P = "\<lambda>t idx (g :: codegen) (y :: outcome \<times> codegen).
              \<not> (idx < 60 \<and> find_first_op t idx (idx + 60) = Inr 0)"
  have "?P t idx g y"
  proof (rule wrap_loop.raw_induct [where P = ?P, OF _ ret])
    fix loop :: "string \<Rightarrow> nat \<Rightarrow> codegen \<Rightarrow> (outcome \<times> codegen) option"
      and t :: string and idx :: nat and g :: codegen and y :: "outcome \<times> codegen"
    assume IH: "\<And>t idx g y. loop t idx g = Some y \<Longrightarrow> ?P t idx g y"
    assume body: "(if idx < 60 then
        (let g1 = add_linebreak g
         in case find_first_op t idx (idx + 60) of
              Inl e \<Rightarrow> Some (Raised e, g1)
            | Inr idx_new \<Rightarrow>
                loop t (idx + idx_new)
                  (g1\<lparr>code := code g1 @ [continuation @ py_slice t idx (idx + idx_new)]\<rparr>))
      else Some (Returned, g)) = Some y"
    show "?P t idx g y"
    proof
      assume stuck: "idx < 60 \<and> find_first_op t idx (idx + 60) = Inr 0"
      with body have "loop t idx
          ((add_linebreak g)\<lparr>code := code (add_linebreak g) @ [continuation @ py_slice t idx idx]\<rparr>)
          = Some y"
        by (simp add: Let_def)
      from IH [OF this] stuck show False by simp
    qed
  qed
  with assms show False by simp
qed

lemma add_code_line_may_not_return:
  "add_code_line \<lparr>code = [], lvl = 0\<rparr>
     '' call_a_subroutine_with_a_very_long_name_and_many_arguments(u,v,w)'' = None"
proof -
  have first: "find_first_op '' call_a_subroutine_with_a_very_long_name_and_many_arguments(u,v,w)'' 0 60 = Inr 0"
    by code_simp
  then have again: "find_first_op '' call_a_subroutine_with_a_very_long_name_and_many_arguments(u,v,w)'' 0 (0 + 60) = Inr 0"
    by simp
  show ?thesis
    using first wrap_loop_no_progress [OF _ again]
    by (simp add: add_code_line_def indented_line_def Let_def)
qed

lemma add_code_line_may_raise:
  "add_code_line \<lparr>code = [], lvl = 0\<rparr>
     ''call_a_subroutine_with_a_very_long_name_and_many_arguments(u,v,w)''
   = Some (Raised ValueError, \<lparr>code = [], lvl = 0\<rparr>)"
  by code_simp

end
